theory Spec2Isabelle
  imports Complex_Main
begin

section \<open>The Tello flight-dynamics plugin (tello\_gazebo/src/tello\_plugin.cpp)\<close>

text \<open>
  The plugin computes, once per simulation tick, a force and a torque from four
  PID channel controllers. Every \<^verbatim>\<open>double\<close> of the source is modelled as a
  \<^typ>\<open>real\<close> and \<^verbatim>\<open>M_PI\<close> as \<^term>\<open>pi\<close>; rounding, infinities and NaN are
  outside the model. A simulation time (\<^verbatim>\<open>gazebo::common::Time\<close>) is modelled
  by its value in seconds, which is what \<^verbatim>\<open>Double()\<close> returns.
\<close>

subsection \<open>Constants and the clamp\<close>

definition MAX_XY_V :: real where "MAX_XY_V = 8.0"
definition MAX_Z_V :: real where "MAX_Z_V = 4.0"
definition MAX_ANG_V :: real where "MAX_ANG_V = pi"

definition MAX_XY_A :: real where "MAX_XY_A = 8.0"
definition MAX_Z_A :: real where "MAX_Z_A = 4.0"
definition MAX_ANG_A :: real where "MAX_ANG_A = pi"

text \<open>\<^verbatim>\<open>return v > max ? max : (v < -max ? -max : v);\<close>\<close>

definition clamp :: "real \<Rightarrow> real \<Rightarrow> real" where
  "clamp v m = (if v > m then m else (if v < - m then - m else v))"

subsection \<open>Vectors, quaternions and poses of the physics library\<close>

text \<open>
  \<^verbatim>\<open>ignition::math::Vector3d\<close>, \<^verbatim>\<open>Quaterniond\<close> and \<^verbatim>\<open>Pose3d\<close> with the
  operations the plugin uses: a default-constructed vector is zero, and a vector
  times a scalar scales every component. \<open>times_v\<close> is the product of two vectors
  component by component; the plugin does not call it, it states what
  ``component-wise'' means.
\<close>

record Vector3d =
  vX :: real
  vY :: real
  vZ :: real

definition Vector3d_Zero :: Vector3d where
  "Vector3d_Zero = \<lparr>vX = 0, vY = 0, vZ = 0\<rparr>"

definition scale_v :: "Vector3d \<Rightarrow> real \<Rightarrow> Vector3d" where
  "scale_v v m = \<lparr>vX = vX v * m, vY = vY v * m, vZ = vZ v * m\<rparr>"

definition times_v :: "Vector3d \<Rightarrow> Vector3d \<Rightarrow> Vector3d" where
  "times_v v u = \<lparr>vX = vX v * vX u, vY = vY v * vY u, vZ = vZ v * vZ u\<rparr>"

record Quaterniond =
  qW :: real
  qX :: real
  qY :: real
  qZ :: real

record Pose3d =
  Pos :: Vector3d
  Rot :: Quaterniond

text \<open>
  The orientation with roll \<open>r\<close>, pitch \<open>p\<close> and yaw \<open>y\<close>, in the fixed-axis
  roll-pitch-yaw convention of the physics library's quaternion type (its
  constructor from Euler angles). It gives the words roll, pitch and yaw of the
  specification a meaning on the four components the plugin overwrites.
\<close>

definition quat_of_euler :: "real \<Rightarrow> real \<Rightarrow> real \<Rightarrow> Quaterniond" where
  "quat_of_euler r p y =
     (let phi = r / 2; the = p / 2; psi = y / 2 in
      \<lparr>qW = cos phi * cos the * cos psi + sin phi * sin the * sin psi,
       qX = sin phi * cos the * cos psi - cos phi * sin the * sin psi,
       qY = cos phi * sin the * cos psi + sin phi * cos the * sin psi,
       qZ = cos phi * cos the * sin psi - sin phi * sin the * cos psi\<rparr>)"

definition scale_q :: "real \<Rightarrow> Quaterniond \<Rightarrow> Quaterniond" where
  "scale_q c q = \<lparr>qW = c * qW q, qX = c * qX q, qY = c * qY q, qZ = c * qZ q\<rparr>"

text \<open>
  Two quaternions lie on one line through the origin when all their 2x2 minors
  vanish. Non-zero quaternions denote the same rotation exactly when they do.
\<close>

definition collinear_q :: "Quaterniond \<Rightarrow> Quaterniond \<Rightarrow> bool" where
  "collinear_q a b \<longleftrightarrow>
     qW a * qX b = qX a * qW b \<and> qW a * qY b = qY a * qW b \<and>
     qW a * qZ b = qZ a * qW b \<and> qX a * qY b = qY a * qX b \<and>
     qX a * qZ b = qZ a * qX b \<and> qY a * qZ b = qZ a * qY b"

subsection \<open>The channel controller (pid.hpp)\<close>

text \<open>
  Modelled from the spec: \<^verbatim>\<open>pid.hpp\<close>, which declares \<^verbatim>\<open>pid::Controller\<close>, its
  constructor, \<^verbatim>\<open>set_target\<close> and \<^verbatim>\<open>calc\<close>, is not among the sources. The
  attributes are those of the specification's data model: the angular flag, the
  setpoint, the accumulated integral error, the previous error and the three gains.
\<close>

record Controller =
  angular :: bool
  setpoint :: real
  accumulator :: real
  prev_error :: real
  kp :: real
  ki :: real
  kd :: real

text \<open>
  Modelled from the spec: the constructor, called in the plugin as
  \<^verbatim>\<open>pid::Controller c {false, 2, 0, 0}\<close>: the flag, then the gains kp, ki, kd
  (``fixed at 2, 0, 0 per channel''). Setpoint, accumulator and previous error
  start at zero.
\<close>

definition new_Controller :: "bool \<Rightarrow> real \<Rightarrow> real \<Rightarrow> real \<Rightarrow> Controller" where
  "new_Controller a p i d =
     \<lparr>angular = a, setpoint = 0, accumulator = 0, prev_error = 0, kp = p, ki = i, kd = d\<rparr>"

text \<open>
  Modelled from the spec: \<^verbatim>\<open>set_target\<close> ``stores a new setpoint, overwriting any
  previous value''.
\<close>

definition set_target :: "real \<Rightarrow> Controller \<Rightarrow> Controller" where
  "set_target v c = c\<lparr>setpoint := v\<rparr>"

text \<open>
  Modelled from the spec: the wrap of an angular error ``into (-pi, pi]
  (shortest-angle difference)'': the one representative of \<open>a\<close> modulo \<open>2 * pi\<close> in
  that interval.
\<close>

definition norm_angle :: "real \<Rightarrow> real" where
  "norm_angle a = a - 2 * pi * of_int \<lceil>(a - pi) / (2 * pi)\<rceil>"

text \<open>
  Modelled from the spec: the instantaneous error of \<^verbatim>\<open>update\<close>,
  ``setpoint - measuredValue'', wrapped when the channel is flagged angular.
\<close>

definition error_of :: "Controller \<Rightarrow> real \<Rightarrow> real" where
  "error_of c state =
     (let e = setpoint c - state in if angular c then norm_angle e else e)"

text \<open>
  A quotient of two doubles whose divisor is zero is no real number: the division
  of the controller is partial, \<open>None\<close> where the divisor is zero.
\<close>

definition divide_checked :: "real \<Rightarrow> real \<Rightarrow> real option" where
  "divide_checked a b = (if b = 0 then None else Some (a / b))"

text \<open>
  Modelled from the spec: the derivative term of \<^verbatim>\<open>update\<close>, ``computed from the
  rate of change of error across the step; when dt == 0 the derivative term must
  be treated as zero to avoid division by zero''.
\<close>

definition derivative_term :: "Controller \<Rightarrow> real \<Rightarrow> real \<Rightarrow> real option" where
  "derivative_term c error dt =
     (if dt = 0 then Some 0 else divide_checked (error - prev_error c) dt)"

text \<open>
  Modelled from the spec: \<^verbatim>\<open>update(measuredValue, dt)\<close>, called \<^verbatim>\<open>calc\<close> in the
  plugin. The accumulator grows by \<open>error * dt\<close>, the derivative is the derivative
  term above, and the output is \<open>kp * error + ki * accumulator + kd * derivative\<close>.
  The plugin passes a third argument, always \<open>0\<close>, of which the specification says
  nothing; it is taken as an offset added to the output. The result is the output
  and the updated controller. Where the derivative term had no value, the output
  would have none either: \<open>the None\<close> is unspecified.
\<close>

definition calc :: "Controller \<Rightarrow> real \<Rightarrow> real \<Rightarrow> real \<Rightarrow> real \<times> Controller" where
  "calc c state dt bias =
     (let error = error_of c state;
          integral = accumulator c + error * dt;
          derivative = the (derivative_term c error dt)
      in (kp c * error + ki c * integral + kd c * derivative + bias,
          c\<lparr>accumulator := integral, prev_error := error\<rparr>))"

subsection \<open>The link and the plugin\<close>

text \<open>
  What the plugin reads from and writes to its \<^verbatim>\<open>base_link_\<close>: the body-frame
  velocities, the mass and moment of inertia of its inertial, the world pose, and
  the forces (with their application points) and torques added during the tick.
  The declarations of the physics library are not among the sources, so neither the
  type of \<^verbatim>\<open>MOI()\<close> nor the product of a vector with it is known. The link
  carries that product as it is used, \<open>times_MOI l v\<close> for
  \<^verbatim>\<open>v * GetInertial()->MOI()\<close>, and nothing is assumed about it.
\<close>

record Link =
  RelativeLinearVel :: Vector3d
  RelativeAngularVel :: Vector3d
  Mass :: real
  times_MOI :: "Vector3d \<Rightarrow> Vector3d"
  WorldPose :: Pose3d
  link_forces :: "(Vector3d \<times> Vector3d) list"
  relative_torques :: "Vector3d list"

definition SetWorldPose :: "Pose3d \<Rightarrow> Link \<Rightarrow> Link" where
  "SetWorldPose p l = l\<lparr>WorldPose := p\<rparr>"

definition AddLinkForce :: "Vector3d \<Rightarrow> Vector3d \<Rightarrow> Link \<Rightarrow> Link" where
  "AddLinkForce f offset l = l\<lparr>link_forces := link_forces l @ [(f, offset)]\<rparr>"

definition AddRelativeTorque :: "Vector3d \<Rightarrow> Link \<Rightarrow> Link" where
  "AddRelativeTorque t l = l\<lparr>relative_torques := relative_torques l @ [t]\<rparr>"

record UpdateInfo =
  simTime :: real

record Twist =
  linear :: Vector3d
  angular_vel :: Vector3d

text \<open>
  The members of \<^verbatim>\<open>TelloPlugin\<close> that the callbacks read or write, and the
  function-local static \<^verbatim>\<open>count\<close> of \<^verbatim>\<open>OnUpdate\<close>.
\<close>

record TelloPlugin =
  base_link :: Link
  center_of_mass :: Vector3d
  sim_time :: real
  x_controller :: Controller
  y_controller :: Controller
  z_controller :: Controller
  yaw_controller :: Controller
  count :: int

text \<open>
  The plugin after construction and \<^verbatim>\<open>Load\<close> on a given link: the member
  initialisers of the class, with a default-constructed (zero) simulation time.
  \<^verbatim>\<open>Load\<close> replaces the centre of mass \<open>{0, 0, 0}\<close> by the \<^verbatim>\<open>center_of_mass\<close>
  element of the SDF when there is one.
\<close>

definition new_TelloPlugin :: "Link \<Rightarrow> Vector3d option \<Rightarrow> TelloPlugin" where
  "new_TelloPlugin l com =
     \<lparr>base_link = l,
      center_of_mass = (case com of None \<Rightarrow> \<lparr>vX = 0, vY = 0, vZ = 0\<rparr> | Some v \<Rightarrow> v),
      sim_time = 0,
      x_controller = new_Controller False 2 0 0,
      y_controller = new_Controller False 2 0 0,
      z_controller = new_Controller False 2 0 0,
      yaw_controller = new_Controller False 2 0 0,
      count = 0\<rparr>"

subsection \<open>OnUpdate\<close>

text \<open>
  The locals of \<^verbatim>\<open>OnUpdate\<close>, each as a function of the update info and the
  plugin before the tick. \<^verbatim>\<open>dt\<close> is the difference of the two simulation times,
  with no case for a first tick.
\<close>

definition dt_of :: "UpdateInfo \<Rightarrow> TelloPlugin \<Rightarrow> real" where
  "dt_of info s = simTime info - sim_time s"

text \<open>
  The desired accelerations before the clamp. Both vectors are default-constructed
  (zero); the three linear components and the angular \<open>z\<close> are then set from the
  controllers.
\<close>

definition lin_ubar_raw :: "UpdateInfo \<Rightarrow> TelloPlugin \<Rightarrow> Vector3d" where
  "lin_ubar_raw info s =
     (let dt = dt_of info s;
          linear_velocity = RelativeLinearVel (base_link s)
      in Vector3d_Zero
           \<lparr>vX := fst (calc (x_controller s) (vX linear_velocity) dt 0),
            vY := fst (calc (y_controller s) (vY linear_velocity) dt 0),
            vZ := fst (calc (z_controller s) (vZ linear_velocity) dt 0)\<rparr>)"

definition ang_ubar_raw :: "UpdateInfo \<Rightarrow> TelloPlugin \<Rightarrow> Vector3d" where
  "ang_ubar_raw info s =
     (let dt = dt_of info s;
          angular_velocity = RelativeAngularVel (base_link s)
      in Vector3d_Zero
           \<lparr>vZ := fst (calc (yaw_controller s) (vZ angular_velocity) dt 0)\<rparr>)"

text \<open>The clamped accelerations.\<close>

definition lin_ubar :: "UpdateInfo \<Rightarrow> TelloPlugin \<Rightarrow> Vector3d" where
  "lin_ubar info s =
     (let u = lin_ubar_raw info s
      in u\<lparr>vX := clamp (vX u) MAX_XY_A,
           vY := clamp (vY u) MAX_XY_A,
           vZ := clamp (vZ u) MAX_Z_A\<rparr>)"

definition ang_ubar :: "UpdateInfo \<Rightarrow> TelloPlugin \<Rightarrow> Vector3d" where
  "ang_ubar info s =
     (let u = ang_ubar_raw info s in u\<lparr>vZ := clamp (vZ u) MAX_ANG_A\<rparr>)"

definition force :: "UpdateInfo \<Rightarrow> TelloPlugin \<Rightarrow> Vector3d" where
  "force info s = scale_v (lin_ubar info s) (Mass (base_link s))"

definition torque :: "UpdateInfo \<Rightarrow> TelloPlugin \<Rightarrow> Vector3d" where
  "torque info s = times_MOI (base_link s) (ang_ubar info s)"

text \<open>
  The tick itself. The counter only gates the debug output, which is off
  (\<^verbatim>\<open>DEBUG = false\<close>); the output itself is not modelled. The pose is read, the \<open>x\<close> and \<open>y\<close>
  components of its rotation are set to \<open>0\<close>, and it is written back; then the force
  is added at the centre of mass and the torque is added.
\<close>

definition OnUpdate :: "UpdateInfo \<Rightarrow> TelloPlugin \<Rightarrow> TelloPlugin" where
  "OnUpdate info s =
     (let dt = dt_of info s;
          linear_velocity = RelativeLinearVel (base_link s);
          angular_velocity = RelativeAngularVel (base_link s);
          pose = WorldPose (base_link s);
          pose' = pose\<lparr>Rot := (Rot pose)\<lparr>qX := 0, qY := 0\<rparr>\<rparr>
      in s\<lparr>count := (if count s + 1 > 100 then 0 else count s + 1),
           sim_time := simTime info,
           x_controller := snd (calc (x_controller s) (vX linear_velocity) dt 0),
           y_controller := snd (calc (y_controller s) (vY linear_velocity) dt 0),
           z_controller := snd (calc (z_controller s) (vZ linear_velocity) dt 0),
           yaw_controller := snd (calc (yaw_controller s) (vZ angular_velocity) dt 0),
           base_link :=
             AddRelativeTorque (torque info s)
               (AddLinkForce (force info s) (center_of_mass s)
                 (SetWorldPose pose' (base_link s)))\<rparr>)"

subsection \<open>The callbacks\<close>

text \<open>
  \<^verbatim>\<open>command_callback\<close> has an empty body: the response it was handed and the
  plugin are returned as they are.
\<close>

definition command_callback :: "'h \<Rightarrow> 'q \<Rightarrow> 'r \<Rightarrow> TelloPlugin \<Rightarrow> 'r \<times> TelloPlugin" where
  "command_callback request_header request response s = (response, s)"

text \<open>
  \<^verbatim>\<open>cmd_vel_callback\<close> scales the four components of the message it reads and
  sets them as targets. The \<^verbatim>\<open>angular\<close> vector of the message is the field
  \<open>angular_vel\<close> of the record.
\<close>

definition cmd_vel_callback :: "Twist \<Rightarrow> TelloPlugin \<Rightarrow> TelloPlugin" where
  "cmd_vel_callback msg s =
     s\<lparr>x_controller := set_target (vX (linear msg) * MAX_XY_V) (x_controller s),
       y_controller := set_target (vY (linear msg) * MAX_XY_V) (y_controller s),
       z_controller := set_target (vZ (linear msg) * MAX_Z_V) (z_controller s),
       yaw_controller := set_target (vZ (angular_vel msg) * MAX_ANG_V) (yaw_controller s)\<rparr>"

subsection \<open>Runs of the plugin\<close>

text \<open>
  What can happen to a loaded plugin, in any order: a simulation tick, a velocity
  command, a request on the action service, and the physics engine moving the link
  between ticks.
\<close>

datatype 'q event =
    Update UpdateInfo
  | CmdVel Twist
  | Command 'q
  | Physics Link

fun step :: "'q event \<Rightarrow> TelloPlugin \<Rightarrow> TelloPlugin" where
  "step (Update info) s = OnUpdate info s"
| "step (CmdVel msg) s = cmd_vel_callback msg s"
| "step (Command request) s = snd (command_callback () request () s)"
| "step (Physics l) s = s\<lparr>base_link := l\<rparr>"

fun run :: "'q event list \<Rightarrow> TelloPlugin \<Rightarrow> TelloPlugin" where
  "run [] s = s"
| "run (e # es) s = run es (step e s)"

fun is_Update :: "'q event \<Rightarrow> bool" where
  "is_Update (Update info) = True"
| "is_Update e = False"

fun is_Command :: "'q event \<Rightarrow> bool" where
  "is_Command (Command request) = True"
| "is_Command e = False"

text \<open>
  The configuration every channel is constructed with: not angular, gains
  \<open>2, 0, 0\<close>.
\<close>

definition as_constructed :: "Controller \<Rightarrow> bool" where
  "as_constructed c \<longleftrightarrow> \<not> angular c \<and> kp c = 2 \<and> ki c = 0 \<and> kd c = 0"

definition configured :: "TelloPlugin \<Rightarrow> bool" where
  "configured s \<longleftrightarrow>
     as_constructed (x_controller s) \<and> as_constructed (y_controller s) \<and>
     as_constructed (z_controller s) \<and> as_constructed (yaw_controller s)"

subsection \<open>Concrete inputs\<close>

text \<open>
  A link of mass 1 at rest at the origin, with the identity orientation and unit
  moments of inertia about its axes.
\<close>

definition link_at_rest :: Link where
  "link_at_rest =
     \<lparr>RelativeLinearVel = Vector3d_Zero,
      RelativeAngularVel = Vector3d_Zero,
      Mass = 1,
      times_MOI = (\<lambda>v. times_v v \<lparr>vX = 1, vY = 1, vZ = 1\<rparr>),
      WorldPose = \<lparr>Pos = Vector3d_Zero, Rot = \<lparr>qW = 1, qX = 0, qY = 0, qZ = 0\<rparr>\<rparr>,
      link_forces = [],
      relative_torques = []\<rparr>"

text \<open>The same link tilted and turned: roll 0.3, pitch -0.2, yaw 1.0.\<close>

definition link_tilted :: Link where
  "link_tilted =
     link_at_rest\<lparr>WorldPose := \<lparr>Pos = Vector3d_Zero, Rot = quat_of_euler 0.3 (- 0.2) 1.0\<rparr>\<rparr>"

text \<open>A link of mass 3 moving forward at 1 m/s.\<close>

definition link_moving :: Link where
  "link_moving =
     link_at_rest\<lparr>RelativeLinearVel := \<lparr>vX = 1, vY = 0, vZ = 0\<rparr>, Mass := 3\<rparr>"

text \<open>A link turning about its vertical axis at \<open>2 * pi - 0.01\<close> rad/s.\<close>

definition link_spinning :: Link where
  "link_spinning =
     link_at_rest\<lparr>RelativeAngularVel := \<lparr>vX = 0, vY = 0, vZ = 2 * pi - 0.01\<rparr>\<rparr>"

section \<open>Properties\<close>

subsection \<open>Shared facts\<close>

lemma clamp_bounds: "0 \<le> m \<Longrightarrow> - m \<le> clamp v m \<and> clamp v m \<le> m"
  by (simp add: clamp_def)

lemma as_constructed_new: "as_constructed (new_Controller False 2 0 0)"
  by (simp add: as_constructed_def new_Controller_def)

lemma as_constructed_set_target: "as_constructed (set_target v c) = as_constructed c"
  by (simp add: as_constructed_def set_target_def)

lemma derivative_term_total:
  "derivative_term c e dt = Some (if dt = 0 then 0 else (e - prev_error c) / dt)"
  by (simp add: derivative_term_def divide_checked_def)

lemma calc_value:
  "calc c m dt b =
     (kp c * error_of c m + ki c * (accumulator c + error_of c m * dt) +
        kd c * (if dt = 0 then 0 else (error_of c m - prev_error c) / dt) + b,
      c\<lparr>accumulator := accumulator c + error_of c m * dt, prev_error := error_of c m\<rparr>)"
  by (simp add: calc_def Let_def derivative_term_total)

lemma as_constructed_calc: "as_constructed (snd (calc c m dt b)) = as_constructed c"
  by (simp add: as_constructed_def calc_value)

lemma configured_new: "configured (new_TelloPlugin l com)"
  by (simp add: configured_def new_TelloPlugin_def as_constructed_new)

lemma configured_step: "configured (step e s) = configured s"
  by (cases e)
     (simp_all add: configured_def OnUpdate_def cmd_vel_callback_def command_callback_def
        Let_def as_constructed_set_target as_constructed_calc)

lemma configured_run: "configured s \<Longrightarrow> configured (run evs s)"
  by (induction evs arbitrary: s) (simp_all add: configured_step)

lemma norm_angle_range: "- pi < norm_angle a \<and> norm_angle a \<le> pi"
proof -
  let ?k = "\<lceil>(a - pi) / (2 * pi)\<rceil>"
  have up: "(a - pi) / (2 * pi) \<le> of_int ?k" by (rule le_of_int_ceiling)
  have lo: "of_int ?k - 1 < (a - pi) / (2 * pi)" by linarith
  have p: "0 < 2 * pi" by simp
  from up have "a - pi \<le> of_int ?k * (2 * pi)" by (simp only: pos_divide_le_eq [OF p])
  moreover from lo have "(of_int ?k - 1) * (2 * pi) < a - pi" by (simp only: pos_less_divide_eq [OF p])
  ultimately show ?thesis by (simp add: norm_angle_def algebra_simps)
qed

lemma norm_angle_example: "norm_angle (0 - (2 * pi - 0.01)) = 0.01"
proof -
  have "\<lceil>(0 - (2 * pi - 0.01) - pi) / (2 * pi)\<rceil> = (-1::int)"
  proof (rule ceiling_unique)
    have p: "0 < 2 * pi" by simp
    have "pi \<ge> 2" by (rule pi_ge_two)
    show "of_int (-1) - 1 < (0 - (2 * pi - 0.01) - pi) / (2 * pi)"
      using p \<open>pi \<ge> 2\<close> by (simp add: pos_less_divide_eq)
    show "(0 - (2 * pi - 0.01) - pi) / (2 * pi) \<le> of_int (-1)"
      using p \<open>pi \<ge> 2\<close> by (simp add: pos_divide_le_eq)
  qed
  then show ?thesis by (simp add: norm_angle_def)
qed

lemma calc_as_constructed:
  "as_constructed c \<Longrightarrow> fst (calc c m dt 0) = kp c * error_of c m"
  by (simp add: as_constructed_def calc_value)

lemma sim_time_step: "\<not> is_Update e \<Longrightarrow> sim_time (step e s) = sim_time s"
  by (cases e) (simp_all add: cmd_vel_callback_def command_callback_def)

lemma sim_time_run:
  "\<forall>e \<in> set evs. \<not> is_Update e \<Longrightarrow> sim_time (run evs s) = sim_time s"
  by (induction evs arbitrary: s) (simp_all add: sim_time_step)

lemma OnUpdate_pose:
  "WorldPose (base_link (OnUpdate info s)) =
     (WorldPose (base_link s))\<lparr>Rot := (Rot (WorldPose (base_link s)))\<lparr>qX := 0, qY := 0\<rparr>\<rparr>"
  by (simp add: OnUpdate_def Let_def AddRelativeTorque_def AddLinkForce_def SetWorldPose_def)

text \<open>A multiple of a quaternion lies on its line.\<close>

lemma collinear_scale: "collinear_q (scale_q c q) q"
  by (simp add: collinear_q_def scale_q_def)

lemma wz_minor:
  fixes a b s c :: real
  assumes "s * s + c * c = 1"
  shows "(a * c + b * s) * s - (a * s - b * c) * c = b"
proof -
  have "(a * c + b * s) * s - (a * s - b * c) * c = b * (s * s + c * c)"
    by (simp add: algebra_simps)
  with assms show ?thesis by simp
qed

text \<open>
  Zeroing the \<open>x\<close> and \<open>y\<close> components of the orientation with roll \<open>r\<close>, pitch \<open>p\<close>
  and yaw \<open>y\<close> gives the orientation with roll 0, pitch 0 and the same yaw only
  when the half-angle sine of the roll or of the pitch vanishes.
\<close>

lemma yaw_kept_iff:
  "collinear_q ((quat_of_euler r p y)\<lparr>qX := 0, qY := 0\<rparr>) (quat_of_euler 0 0 y) \<longleftrightarrow>
     sin (r / 2) = 0 \<or> sin (p / 2) = 0"
proof -
  let ?sr = "sin (r / 2)" and ?cr = "cos (r / 2)" and ?sp = "sin (p / 2)"
    and ?cp = "cos (p / 2)" and ?sy = "sin (y / 2)" and ?cy = "cos (y / 2)"
  have one: "?sy * ?sy + ?cy * ?cy = 1"
    using sin_cos_squared_add [of "y / 2"] by (simp add: power2_eq_square)
  have d: "(?cr * ?cp * ?cy + ?sr * ?sp * ?sy) * ?sy - (?cr * ?cp * ?sy - ?sr * ?sp * ?cy) * ?cy
          = ?sr * ?sp"
    by (rule wz_minor [OF one])
  have "collinear_q ((quat_of_euler r p y)\<lparr>qX := 0, qY := 0\<rparr>) (quat_of_euler 0 0 y) \<longleftrightarrow>
     (?cr * ?cp * ?cy + ?sr * ?sp * ?sy) * ?sy = (?cr * ?cp * ?sy - ?sr * ?sp * ?cy) * ?cy"
    by (simp add: collinear_q_def quat_of_euler_def Let_def)
  also have "\<dots> \<longleftrightarrow> ?sr * ?sp = 0"
    using d by linarith
  finally show ?thesis by simp
qed

text \<open>
  A quaternion whose \<open>x\<close> and \<open>y\<close> components are zero is a multiple of a pure yaw
  rotation: its roll and pitch are zero.
\<close>

lemma upright_polar:
  "\<exists>c psi. q\<lparr>qX := 0, qY := 0\<rparr> = scale_q c (quat_of_euler 0 0 psi)"
proof -
  obtain c a where "qW q = c * cos a" and "qZ q = c * sin a"
    using polar_Ex [of "qW q" "qZ q"] by blast
  then have "q\<lparr>qX := 0, qY := 0\<rparr> = scale_q c (quat_of_euler 0 0 (2 * a))"
    by (simp add: scale_q_def quat_of_euler_def Let_def)
  then show ?thesis by blast
qed

lemma run_drop_commands: "run (filter (\<lambda>e. \<not> is_Command e) evs) s = run evs s"
proof (induction evs arbitrary: s)
  case Nil
  show ?case by simp
next
  case (Cons e evs)
  show ?case by (cases e) (simp_all add: Cons.IH command_callback_def)
qed

subsection \<open>C1: the error of the yaw-rate channel\<close>

text \<open>
  C1, as stated, fails: the yaw-rate controller is constructed with the angular
  flag \<open>false\<close>, so the error its update uses is not wrapped. With setpoint \<open>0\<close>
  and a link turning at \<open>2 * pi - 0.01\<close>, the error the tick leaves in the yaw
  controller is \<open>0.01 - 2 * pi\<close>, of magnitude above \<open>0.01\<close>, and the yaw demand is
  twice that.
\<close>

theorem yaw_error_unwrapped_counterexample:
  "\<not> \<bar>prev_error (yaw_controller
        (OnUpdate \<lparr>simTime = 1\<rparr>
          (cmd_vel_callback \<lparr>linear = Vector3d_Zero, angular_vel = Vector3d_Zero\<rparr>
            (new_TelloPlugin link_spinning None))))\<bar> \<le> 0.01 \<and>
   vZ (ang_ubar_raw \<lparr>simTime = 1\<rparr>
        (cmd_vel_callback \<lparr>linear = Vector3d_Zero, angular_vel = Vector3d_Zero\<rparr>
          (new_TelloPlugin link_spinning None))) = 2 * (0.01 - 2 * pi)"
proof -
  have p: "pi \<ge> 2" by (rule pi_ge_two)
  have cv: "calc c m dt b =
     (kp c * error_of c m + ki c * (accumulator c + error_of c m * dt) +
        kd c * (if dt = 0 then 0 else (error_of c m - prev_error c) / dt) + b,
      c\<lparr>accumulator := accumulator c + error_of c m * dt, prev_error := error_of c m\<rparr>)"
    for c m dt b
    by (simp add: calc_def Let_def derivative_term_def divide_checked_def)
  let ?s = "cmd_vel_callback \<lparr>linear = Vector3d_Zero, angular_vel = Vector3d_Zero\<rparr>
            (new_TelloPlugin link_spinning None)"
  have y: "yaw_controller ?s = new_Controller False 2 0 0"
    by (simp add: cmd_vel_callback_def new_TelloPlugin_def set_target_def new_Controller_def
          Vector3d_Zero_def)
  have v: "vZ (RelativeAngularVel (base_link ?s)) = 2 * pi - 0.01"
    by (simp add: cmd_vel_callback_def new_TelloPlugin_def link_spinning_def)
  have e: "error_of (new_Controller False 2 0 0) x = - x" for x
    by (simp add: error_of_def new_Controller_def)
  have k: "kp (new_Controller False 2 0 0) = 2" by (simp add: new_Controller_def)
  have "prev_error (yaw_controller (OnUpdate \<lparr>simTime = 1\<rparr> ?s)) =
      prev_error (snd (calc (yaw_controller ?s) (vZ (RelativeAngularVel (base_link ?s)))
        (dt_of \<lparr>simTime = 1\<rparr> ?s) 0))"
    by (simp add: OnUpdate_def Let_def)
  also have "\<dots> = prev_error (snd (calc (new_Controller False 2 0 0) (2 * pi - 0.01)
        (dt_of \<lparr>simTime = 1\<rparr> ?s) 0))"
    by (simp only: y v)
  also have "\<dots> = 0.01 - 2 * pi"
    by (simp add: cv e)
  finally have 1: "prev_error (yaw_controller (OnUpdate \<lparr>simTime = 1\<rparr> ?s)) = 0.01 - 2 * pi" .
  have "vZ (ang_ubar_raw \<lparr>simTime = 1\<rparr> ?s) =
      fst (calc (yaw_controller ?s) (vZ (RelativeAngularVel (base_link ?s)))
        (dt_of \<lparr>simTime = 1\<rparr> ?s) 0)"
    by (simp add: ang_ubar_raw_def Let_def)
  also have "\<dots> = fst (calc (new_Controller False 2 0 0) (2 * pi - 0.01)
        (dt_of \<lparr>simTime = 1\<rparr> ?s) 0)"
    by (simp only: y v)
  also have "\<dots> = 2 * (0.01 - 2 * pi)"
    by (simp add: cv e k) (simp add: new_Controller_def)
  finally have 2: "vZ (ang_ubar_raw \<lparr>simTime = 1\<rparr> ?s) = 2 * (0.01 - 2 * pi)" .
  from p have "\<not> \<bar>0.01 - 2 * pi\<bar> \<le> (0.01::real)" by simp
  with 1 2 show ?thesis by simp
qed

text \<open>
  C1, amended: for a channel flagged angular, the update computes its output, its
  accumulator and its stored error from the error wrapped into \<open>(-pi, pi]\<close>, which
  differs from \<open>setpoint - measured\<close> by a whole number of turns; with setpoint \<open>0\<close>
  and measured value \<open>2 * pi - 0.01\<close> the wrapped error is \<open>0.01\<close>. For a channel
  not flagged angular they are computed from \<open>setpoint - measured\<close> itself. The
  yaw-rate channel of the plugin is never flagged angular, whatever ticks,
  commands, service requests and physics updates the plugin has seen: a tick
  leaves \<open>setpoint - measured yaw rate\<close> in it as the error and demands twice that.
\<close>

theorem error_wrapped_iff_flagged_angular:
  assumes "w = norm_angle (setpoint c - m)" and "s = run evs (new_TelloPlugin l com)"
  shows
  "(angular c \<longrightarrow>
      - pi < w \<and> w \<le> pi \<and> (\<exists>k::int. w = setpoint c - m + 2 * pi * of_int k) \<and>
      calc c m dt b =
        (kp c * w + ki c * (accumulator c + w * dt) +
           kd c * (if dt = 0 then 0 else (w - prev_error c) / dt) + b,
         c\<lparr>accumulator := accumulator c + w * dt, prev_error := w\<rparr>)) \<and>
   (angular c \<and> setpoint c = 0 \<and> m = 2 * pi - 0.01 \<longrightarrow> w = 0.01) \<and>
   (\<not> angular c \<longrightarrow>
      calc c m dt b =
        (kp c * (setpoint c - m) + ki c * (accumulator c + (setpoint c - m) * dt) +
           kd c * (if dt = 0 then 0 else (setpoint c - m - prev_error c) / dt) + b,
         c\<lparr>accumulator := accumulator c + (setpoint c - m) * dt,
           prev_error := setpoint c - m\<rparr>)) \<and>
   \<not> angular (yaw_controller s) \<and>
   prev_error (yaw_controller (OnUpdate info s)) =
     setpoint (yaw_controller s) - vZ (RelativeAngularVel (base_link s)) \<and>
   vZ (ang_ubar_raw info s) =
     2 * (setpoint (yaw_controller s) - vZ (RelativeAngularVel (base_link s)))"
proof -
  have cv: "calc c m dt b =
     (kp c * error_of c m + ki c * (accumulator c + error_of c m * dt) +
        kd c * (if dt = 0 then 0 else (error_of c m - prev_error c) / dt) + b,
      c\<lparr>accumulator := accumulator c + error_of c m * dt, prev_error := error_of c m\<rparr>)"
    for c m dt b
    by (simp add: calc_def Let_def derivative_term_def divide_checked_def)
  have c: "configured s"
    unfolding assms(2) by (rule configured_run [OF configured_new])
  then have y: "as_constructed (yaw_controller s)" by (simp add: configured_def)
  then have na: "\<not> angular (yaw_controller s)" by (simp add: as_constructed_def)
  have k: "\<exists>k::int. w = setpoint c - m + 2 * pi * of_int k"
    unfolding assms(1)
    by (rule exI [of _ "- \<lceil>(setpoint c - m - pi) / (2 * pi)\<rceil>"]) (simp add: norm_angle_def)
  have r: "- pi < w \<and> w \<le> pi"
    unfolding assms(1) by (rule norm_angle_range)
  have ew: "angular c \<Longrightarrow> error_of c m = w"
    by (simp add: error_of_def assms(1))
  have 1: "angular c \<longrightarrow>
      - pi < w \<and> w \<le> pi \<and> (\<exists>k::int. w = setpoint c - m + 2 * pi * of_int k) \<and>
      calc c m dt b =
        (kp c * w + ki c * (accumulator c + w * dt) +
           kd c * (if dt = 0 then 0 else (w - prev_error c) / dt) + b,
         c\<lparr>accumulator := accumulator c + w * dt, prev_error := w\<rparr>)"
    using r k by (simp add: cv ew)
  have 2: "angular c \<and> setpoint c = 0 \<and> m = 2 * pi - 0.01 \<longrightarrow> w = 0.01"
    using norm_angle_example by (simp add: assms(1))
  have 3: "\<not> angular c \<longrightarrow>
      calc c m dt b =
        (kp c * (setpoint c - m) + ki c * (accumulator c + (setpoint c - m) * dt) +
           kd c * (if dt = 0 then 0 else (setpoint c - m - prev_error c) / dt) + b,
         c\<lparr>accumulator := accumulator c + (setpoint c - m) * dt,
           prev_error := setpoint c - m\<rparr>)"
    by (simp add: cv error_of_def)
  have ey: "error_of (yaw_controller s) x = setpoint (yaw_controller s) - x" for x
    using na by (simp add: error_of_def)
  have 4: "prev_error (yaw_controller (OnUpdate info s)) =
     setpoint (yaw_controller s) - vZ (RelativeAngularVel (base_link s))"
    by (simp add: OnUpdate_def Let_def cv ey)
  have 5: "vZ (ang_ubar_raw info s) =
     2 * (setpoint (yaw_controller s) - vZ (RelativeAngularVel (base_link s)))"
    using y by (simp add: ang_ubar_raw_def Let_def cv ey as_constructed_def)
  from 1 2 3 na 4 5 show ?thesis by blast
qed

theorem error_wrapped_iff_flagged_angular_witness:
  "angular (new_Controller True 2 3 4) \<and> setpoint (new_Controller True 2 3 4) = 0 \<and>
   norm_angle (setpoint (new_Controller True 2 3 4) - (2 * pi - 0.01)) = 0.01 \<and>
   calc (new_Controller True 2 3 4) (2 * pi - 0.01) 1 0 =
     (0.02 + 0.03 + 0.04, (new_Controller True 2 3 4)\<lparr>accumulator := 0.01, prev_error := 0.01\<rparr>) \<and>
   \<not> angular (yaw_controller
       (run [CmdVel \<lparr>linear = Vector3d_Zero, angular_vel = Vector3d_Zero\<rparr>,
             Update \<lparr>simTime = 1\<rparr>, Command ''takeoff'']
            (new_TelloPlugin link_at_rest None)))"
proof -
  let ?c = "new_Controller True 2 3 4"
  let ?evs = "[CmdVel \<lparr>linear = Vector3d_Zero, angular_vel = Vector3d_Zero\<rparr>,
             Update \<lparr>simTime = 1\<rparr>, Command ''takeoff'']"
  have a: "angular ?c" and s0: "setpoint ?c = 0" by (simp_all add: new_Controller_def)
  note t = error_wrapped_iff_flagged_angular
    [OF refl refl, of ?c "2 * pi - 0.01" 1 0 ?evs link_at_rest None "\<lparr>simTime = 2\<rparr>"]
  from t a s0 have w: "norm_angle (setpoint ?c - (2 * pi - 0.01)) = 0.01" by blast
  from t a have "calc ?c (2 * pi - 0.01) 1 0 =
        (kp ?c * norm_angle (setpoint ?c - (2 * pi - 0.01)) +
           ki ?c * (accumulator ?c + norm_angle (setpoint ?c - (2 * pi - 0.01)) * 1) +
           kd ?c * (if (1::real) = 0 then 0
                    else (norm_angle (setpoint ?c - (2 * pi - 0.01)) - prev_error ?c) / 1) + 0,
         ?c\<lparr>accumulator := accumulator ?c + norm_angle (setpoint ?c - (2 * pi - 0.01)) * 1,
            prev_error := norm_angle (setpoint ?c - (2 * pi - 0.01))\<rparr>)"
    by blast
  then have cv: "calc ?c (2 * pi - 0.01) 1 0 =
     (0.02 + 0.03 + 0.04, ?c\<lparr>accumulator := 0.01, prev_error := 0.01\<rparr>)"
    unfolding w by (simp add: new_Controller_def)
  from t have n: "\<not> angular (yaw_controller (run ?evs (new_TelloPlugin link_at_rest None)))"
    by blast
  from a s0 w cv n show ?thesis by (intro conjI)
qed

subsection \<open>C2: the elapsed time of a tick\<close>

text \<open>
  C2, as stated, fails twice. \<^verbatim>\<open>OnUpdate\<close> has no case for a first tick: the
  first tick of a freshly loaded plugin, at simulation time 5 on a link moving at
  1 m/s, integrates the error \<open>-1\<close> over \<open>dt = 5\<close>, not over \<open>dt = 0\<close>. And \<open>dt\<close> can
  be negative: a following tick at simulation time 3, as after a reset of the
  simulation, uses \<open>dt = -2\<close> and integrates over it.
\<close>

theorem tick_dt_counterexample:
  "accumulator (x_controller (OnUpdate \<lparr>simTime = 5\<rparr> (new_TelloPlugin link_moving None))) = - 5 \<and>
   dt_of \<lparr>simTime = 5\<rparr> (new_TelloPlugin link_moving None) \<noteq> 0 \<and>
   dt_of \<lparr>simTime = 3\<rparr> (OnUpdate \<lparr>simTime = 5\<rparr> (new_TelloPlugin link_moving None)) < 0 \<and>
   accumulator (x_controller
     (OnUpdate \<lparr>simTime = 3\<rparr> (OnUpdate \<lparr>simTime = 5\<rparr> (new_TelloPlugin link_moving None)))) = - 3"
proof -
  have cv: "calc c m dt b =
     (kp c * error_of c m + ki c * (accumulator c + error_of c m * dt) +
        kd c * (if dt = 0 then 0 else (error_of c m - prev_error c) / dt) + b,
      c\<lparr>accumulator := accumulator c + error_of c m * dt, prev_error := error_of c m\<rparr>)"
    for c m dt b
    by (simp add: calc_def Let_def derivative_term_def divide_checked_def)
  have xc: "x_controller (OnUpdate i t) =
     snd (calc (x_controller t) (vX (RelativeLinearVel (base_link t))) (simTime i - sim_time t) 0)"
    for i t
    by (simp add: OnUpdate_def Let_def dt_of_def)
  let ?s0 = "new_TelloPlugin link_moving None"
  let ?s1 = "OnUpdate \<lparr>simTime = 5\<rparr> ?s0"
  have x0: "x_controller ?s0 = new_Controller False 2 0 0" and t0: "sim_time ?s0 = 0"
    and v0: "vX (RelativeLinearVel (base_link ?s0)) = 1"
    by (simp_all add: new_TelloPlugin_def link_moving_def)
  have e: "error_of (c\<lparr>accumulator := a, prev_error := q\<rparr>) x = error_of c x" for c a q x
    by (simp add: error_of_def)
  have e0: "error_of (new_Controller False 2 0 0) x = - x" for x
    by (simp add: error_of_def new_Controller_def)
  have x1: "x_controller ?s1 = (new_Controller False 2 0 0)\<lparr>accumulator := - 5, prev_error := - 1\<rparr>"
    using xc [of "\<lparr>simTime = 5\<rparr>" ?s0]
    by (simp add: x0 t0 v0 cv e0) (simp add: new_Controller_def)
  have t1: "sim_time ?s1 = 5" by (simp add: OnUpdate_def Let_def)
  have v1: "vX (RelativeLinearVel (base_link ?s1)) = 1"
    by (simp add: OnUpdate_def Let_def AddRelativeTorque_def AddLinkForce_def SetWorldPose_def
          new_TelloPlugin_def link_moving_def)
  have a: "accumulator (x_controller ?s1) = - 5" by (simp add: x1)
  have b: "dt_of \<lparr>simTime = 5\<rparr> ?s0 \<noteq> 0" by (simp add: dt_of_def t0)
  have c: "dt_of \<lparr>simTime = 3\<rparr> ?s1 < 0" by (simp add: dt_of_def t1)
  have d: "accumulator (x_controller (OnUpdate \<lparr>simTime = 3\<rparr> ?s1)) = - 3"
    using xc [of "\<lparr>simTime = 3\<rparr>" ?s1]
    by (simp add: x1 t1 v1 cv e e0)
  from a b c d show ?thesis by (intro conjI)
qed

text \<open>
  C2, amended: on every tick, the first included, each of the four controllers is
  updated with \<open>dt\<close> = current simulation time minus the stored time, and the
  current time is stored. No other callback changes the stored time, so a tick
  that follows a tick (with commands, service requests and physics updates in
  between) uses the difference of their two times, which is non-negative exactly
  when the simulation time has not gone back. The stored time of a freshly loaded
  plugin is zero, so its first tick uses the current simulation time as \<open>dt\<close>. On
  that first tick the demand of every channel is its proportional term, because
  the integral and derivative gains of the four channels are \<open>0\<close>.
\<close>

theorem tick_dt:
  assumes "\<forall>e \<in> set evs. \<not> is_Update e"
    and "s1 = run evs (OnUpdate info s)"
    and "s0 = run evs (new_TelloPlugin l com)"
  shows
  "x_controller (OnUpdate info s) =
     snd (calc (x_controller s) (vX (RelativeLinearVel (base_link s))) (simTime info - sim_time s) 0) \<and>
   y_controller (OnUpdate info s) =
     snd (calc (y_controller s) (vY (RelativeLinearVel (base_link s))) (simTime info - sim_time s) 0) \<and>
   z_controller (OnUpdate info s) =
     snd (calc (z_controller s) (vZ (RelativeLinearVel (base_link s))) (simTime info - sim_time s) 0) \<and>
   yaw_controller (OnUpdate info s) =
     snd (calc (yaw_controller s) (vZ (RelativeAngularVel (base_link s))) (simTime info - sim_time s) 0) \<and>
   lin_ubar_raw info s =
     \<lparr>vX = fst (calc (x_controller s) (vX (RelativeLinearVel (base_link s))) (simTime info - sim_time s) 0),
      vY = fst (calc (y_controller s) (vY (RelativeLinearVel (base_link s))) (simTime info - sim_time s) 0),
      vZ = fst (calc (z_controller s) (vZ (RelativeLinearVel (base_link s))) (simTime info - sim_time s) 0)\<rparr> \<and>
   ang_ubar_raw info s =
     \<lparr>vX = 0, vY = 0,
      vZ = fst (calc (yaw_controller s) (vZ (RelativeAngularVel (base_link s))) (simTime info - sim_time s) 0)\<rparr> \<and>
   accumulator (x_controller (OnUpdate info s)) =
     accumulator (x_controller s) +
       error_of (x_controller s) (vX (RelativeLinearVel (base_link s))) * (simTime info - sim_time s) \<and>
   sim_time (OnUpdate info s) = simTime info \<and>
   sim_time s1 = simTime info \<and>
   accumulator (x_controller (OnUpdate info' s1)) =
     accumulator (x_controller s1) +
       error_of (x_controller s1) (vX (RelativeLinearVel (base_link s1))) * (simTime info' - simTime info) \<and>
   dt_of info' s1 = simTime info' - simTime info \<and>
   (0 \<le> dt_of info' s1 \<longleftrightarrow> simTime info \<le> simTime info') \<and>
   sim_time s0 = 0 \<and>
   accumulator (x_controller (OnUpdate info s0)) =
     accumulator (x_controller s0) +
       error_of (x_controller s0) (vX (RelativeLinearVel (base_link s0))) * simTime info \<and>
   dt_of info s0 = simTime info \<and>
   lin_ubar_raw info s0 =
     \<lparr>vX = kp (x_controller s0) * error_of (x_controller s0) (vX (RelativeLinearVel (base_link s0))),
      vY = kp (y_controller s0) * error_of (y_controller s0) (vY (RelativeLinearVel (base_link s0))),
      vZ = kp (z_controller s0) * error_of (z_controller s0) (vZ (RelativeLinearVel (base_link s0)))\<rparr> \<and>
   ang_ubar_raw info s0 =
     \<lparr>vX = 0, vY = 0,
      vZ = kp (yaw_controller s0) *
             error_of (yaw_controller s0) (vZ (RelativeAngularVel (base_link s0)))\<rparr>"
proof -
  have cv: "calc c m dt b =
     (kp c * error_of c m + ki c * (accumulator c + error_of c m * dt) +
        kd c * (if dt = 0 then 0 else (error_of c m - prev_error c) / dt) + b,
      c\<lparr>accumulator := accumulator c + error_of c m * dt, prev_error := error_of c m\<rparr>)"
    for c m dt b
    by (simp add: calc_def Let_def derivative_term_def divide_checked_def)
  have A: "x_controller (OnUpdate info s) =
     snd (calc (x_controller s) (vX (RelativeLinearVel (base_link s))) (simTime info - sim_time s) 0) \<and>
   y_controller (OnUpdate info s) =
     snd (calc (y_controller s) (vY (RelativeLinearVel (base_link s))) (simTime info - sim_time s) 0) \<and>
   z_controller (OnUpdate info s) =
     snd (calc (z_controller s) (vZ (RelativeLinearVel (base_link s))) (simTime info - sim_time s) 0) \<and>
   yaw_controller (OnUpdate info s) =
     snd (calc (yaw_controller s) (vZ (RelativeAngularVel (base_link s))) (simTime info - sim_time s) 0)"
    by (simp add: OnUpdate_def Let_def dt_of_def)
  have B: "lin_ubar_raw info s =
     \<lparr>vX = fst (calc (x_controller s) (vX (RelativeLinearVel (base_link s))) (simTime info - sim_time s) 0),
      vY = fst (calc (y_controller s) (vY (RelativeLinearVel (base_link s))) (simTime info - sim_time s) 0),
      vZ = fst (calc (z_controller s) (vZ (RelativeLinearVel (base_link s))) (simTime info - sim_time s) 0)\<rparr> \<and>
   ang_ubar_raw info s =
     \<lparr>vX = 0, vY = 0,
      vZ = fst (calc (yaw_controller s) (vZ (RelativeAngularVel (base_link s))) (simTime info - sim_time s) 0)\<rparr>"
    by (simp add: lin_ubar_raw_def ang_ubar_raw_def Let_def dt_of_def Vector3d_Zero_def)
  have acc: "accumulator (x_controller (OnUpdate i t)) =
     accumulator (x_controller t) +
       error_of (x_controller t) (vX (RelativeLinearVel (base_link t))) * (simTime i - sim_time t)"
    for i t
    by (simp add: OnUpdate_def Let_def dt_of_def cv)
  have t: "sim_time (OnUpdate info s) = simTime info"
    by (simp add: OnUpdate_def Let_def)
  have t1: "sim_time s1 = simTime info"
    unfolding assms(2) by (simp add: sim_time_run [OF assms(1)] t)
  have t0: "sim_time s0 = 0"
    unfolding assms(3) by (simp add: sim_time_run [OF assms(1)] new_TelloPlugin_def)
  have c0: "configured s0"
    unfolding assms(3) by (rule configured_run [OF configured_new])
  have C: "lin_ubar_raw info s0 =
     \<lparr>vX = kp (x_controller s0) * error_of (x_controller s0) (vX (RelativeLinearVel (base_link s0))),
      vY = kp (y_controller s0) * error_of (y_controller s0) (vY (RelativeLinearVel (base_link s0))),
      vZ = kp (z_controller s0) * error_of (z_controller s0) (vZ (RelativeLinearVel (base_link s0)))\<rparr>"
    using c0 by (simp add: configured_def lin_ubar_raw_def Let_def Vector3d_Zero_def calc_as_constructed)
  have D: "ang_ubar_raw info s0 =
     \<lparr>vX = 0, vY = 0,
      vZ = kp (yaw_controller s0) *
             error_of (yaw_controller s0) (vZ (RelativeAngularVel (base_link s0)))\<rparr>"
    using c0 by (simp add: configured_def ang_ubar_raw_def Let_def Vector3d_Zero_def calc_as_constructed)
  have a1: "accumulator (x_controller (OnUpdate info' s1)) =
     accumulator (x_controller s1) +
       error_of (x_controller s1) (vX (RelativeLinearVel (base_link s1))) * (simTime info' - simTime info)"
    using acc [of info' s1] by (simp add: t1)
  have a0: "accumulator (x_controller (OnUpdate info s0)) =
     accumulator (x_controller s0) +
       error_of (x_controller s0) (vX (RelativeLinearVel (base_link s0))) * simTime info"
    using acc [of info s0] by (simp add: t0)
  have d1: "dt_of info' s1 = simTime info' - simTime info" by (simp add: dt_of_def t1)
  have d0: "dt_of info s0 = simTime info" by (simp add: dt_of_def t0)
  have n: "0 \<le> dt_of info' s1 \<longleftrightarrow> simTime info \<le> simTime info'" by (simp add: d1)
  from A B acc [of info s] t t1 a1 d1 n t0 a0 d0 C D show ?thesis by (intro conjI) blast+
qed

theorem tick_dt_witness:
  "dt_of \<lparr>simTime = 5\<rparr>
     (run [CmdVel \<lparr>linear = \<lparr>vX = 1, vY = 0, vZ = 0\<rparr>, angular_vel = Vector3d_Zero\<rparr>,
           Command ''takeoff''] (new_TelloPlugin link_moving None)) = 5 \<and>
   dt_of \<lparr>simTime = 7\<rparr>
     (run [CmdVel \<lparr>linear = \<lparr>vX = 1, vY = 0, vZ = 0\<rparr>, angular_vel = Vector3d_Zero\<rparr>,
           Command ''takeoff'']
        (OnUpdate \<lparr>simTime = 5\<rparr> (new_TelloPlugin link_moving None))) = 2 \<and>
   0 \<le> dt_of \<lparr>simTime = 7\<rparr>
     (run [CmdVel \<lparr>linear = \<lparr>vX = 1, vY = 0, vZ = 0\<rparr>, angular_vel = Vector3d_Zero\<rparr>,
           Command ''takeoff'']
        (OnUpdate \<lparr>simTime = 5\<rparr> (new_TelloPlugin link_moving None)))"
proof -
  let ?evs = "[CmdVel \<lparr>linear = \<lparr>vX = 1, vY = 0, vZ = 0\<rparr>, angular_vel = Vector3d_Zero\<rparr>,
           Command ''takeoff'']"
  have n: "\<forall>e \<in> set ?evs. \<not> is_Update e" by simp
  note t = tick_dt
    [where evs = ?evs and info = "\<lparr>simTime = 5\<rparr>" and s = "new_TelloPlugin link_moving None"
       and l = link_moving and com = None and info' = "\<lparr>simTime = 7\<rparr>", OF n refl refl]
  from t have a: "dt_of \<lparr>simTime = 5\<rparr> (run ?evs (new_TelloPlugin link_moving None)) =
      simTime \<lparr>simTime = 5\<rparr>"
    by blast
  from t have b: "dt_of \<lparr>simTime = 7\<rparr>
      (run ?evs (OnUpdate \<lparr>simTime = 5\<rparr> (new_TelloPlugin link_moving None))) =
      simTime \<lparr>simTime = 7\<rparr> - simTime \<lparr>simTime = 5\<rparr>"
    by blast
  from t have c: "0 \<le> dt_of \<lparr>simTime = 7\<rparr>
      (run ?evs (OnUpdate \<lparr>simTime = 5\<rparr> (new_TelloPlugin link_moving None))) \<longleftrightarrow>
      simTime \<lparr>simTime = 5\<rparr> \<le> simTime \<lparr>simTime = 7\<rparr>"
    by blast
  from a b c show ?thesis by simp
qed

subsection \<open>C3: the clamp of the four acceleration demands\<close>

text \<open>
  C3: whatever the value, its clamp lies in \<open>[-8, 8]\<close> for the horizontal bound,
  in \<open>[-4, 4]\<close> for the vertical bound and in \<open>[-pi, pi]\<close> for the yaw bound; for
  each of the three bounds a value above it becomes the bound, a value below its
  negation becomes the negated bound, and a value within is returned as it is. On
  every tick the clamped demands are the clamps of the four raw demands, each with
  the bound of its axis.
\<close>

theorem clamp_saturates:
  "(- 8 \<le> clamp v MAX_XY_A \<and> clamp v MAX_XY_A \<le> 8) \<and>
   (- 4 \<le> clamp v MAX_Z_A \<and> clamp v MAX_Z_A \<le> 4) \<and>
   (- pi \<le> clamp v MAX_ANG_A \<and> clamp v MAX_ANG_A \<le> pi) \<and>
   (\<forall>m \<in> {MAX_XY_A, MAX_Z_A, MAX_ANG_A}.
      (v > m \<longrightarrow> clamp v m = m) \<and> (v < - m \<longrightarrow> clamp v m = - m) \<and>
      (- m \<le> v \<and> v \<le> m \<longrightarrow> clamp v m = v)) \<and>
   lin_ubar info s =
     \<lparr>vX = clamp (vX (lin_ubar_raw info s)) MAX_XY_A,
      vY = clamp (vY (lin_ubar_raw info s)) MAX_XY_A,
      vZ = clamp (vZ (lin_ubar_raw info s)) MAX_Z_A\<rparr> \<and>
   ang_ubar info s = \<lparr>vX = 0, vY = 0, vZ = clamp (vZ (ang_ubar_raw info s)) MAX_ANG_A\<rparr>"
proof -
  have a: "- 8 \<le> clamp v MAX_XY_A \<and> clamp v MAX_XY_A \<le> 8"
    using clamp_bounds [of MAX_XY_A v] by (simp add: MAX_XY_A_def)
  have b: "- 4 \<le> clamp v MAX_Z_A \<and> clamp v MAX_Z_A \<le> 4"
    using clamp_bounds [of MAX_Z_A v] by (simp add: MAX_Z_A_def)
  have c: "- pi \<le> clamp v MAX_ANG_A \<and> clamp v MAX_ANG_A \<le> pi"
    using clamp_bounds [of MAX_ANG_A v] by (simp add: MAX_ANG_A_def)
  have d: "(v > m \<longrightarrow> clamp v m = m) \<and> (v < - m \<longrightarrow> clamp v m = - m) \<and>
      (- m \<le> v \<and> v \<le> m \<longrightarrow> clamp v m = v)" if "0 \<le> m" for m
    using that by (simp add: clamp_def)
  have e: "\<forall>m \<in> {MAX_XY_A, MAX_Z_A, MAX_ANG_A}.
      (v > m \<longrightarrow> clamp v m = m) \<and> (v < - m \<longrightarrow> clamp v m = - m) \<and>
      (- m \<le> v \<and> v \<le> m \<longrightarrow> clamp v m = v)"
    using d [of MAX_XY_A] d [of MAX_Z_A] d [of MAX_ANG_A]
    by (simp add: MAX_XY_A_def MAX_Z_A_def MAX_ANG_A_def)
  have f: "lin_ubar info s =
     \<lparr>vX = clamp (vX (lin_ubar_raw info s)) MAX_XY_A,
      vY = clamp (vY (lin_ubar_raw info s)) MAX_XY_A,
      vZ = clamp (vZ (lin_ubar_raw info s)) MAX_Z_A\<rparr>"
    by (simp add: lin_ubar_def Let_def)
  have g: "ang_ubar info s = \<lparr>vX = 0, vY = 0, vZ = clamp (vZ (ang_ubar_raw info s)) MAX_ANG_A\<rparr>"
    by (simp add: ang_ubar_def ang_ubar_raw_def Let_def Vector3d_Zero_def)
  from a b c e f g show ?thesis by blast
qed

theorem clamp_saturates_witness:
  "10 > MAX_XY_A \<and> clamp 10 MAX_XY_A = 8 \<and>
   - 5 < - MAX_Z_A \<and> clamp (- 5) MAX_Z_A = - 4 \<and>
   - MAX_ANG_A \<le> 1 \<and> 1 \<le> MAX_ANG_A \<and> clamp 1 MAX_ANG_A = 1 \<and>
   - MAX_XY_A \<le> 3 \<and> 3 \<le> MAX_XY_A \<and> clamp 3 MAX_XY_A = 3 \<and>
   10 > MAX_ANG_A \<and> clamp 10 MAX_ANG_A = pi"
proof -
  have p: "pi \<ge> 2" by (rule pi_ge_two)
  have q: "pi < 4" by (rule pi_less_4)
  show ?thesis
    using p q
      clamp_saturates [of 10 "\<lparr>simTime = 0\<rparr>" "new_TelloPlugin link_at_rest None"]
      clamp_saturates [of "- 5" "\<lparr>simTime = 0\<rparr>" "new_TelloPlugin link_at_rest None"]
      clamp_saturates [of 1 "\<lparr>simTime = 0\<rparr>" "new_TelloPlugin link_at_rest None"]
      clamp_saturates [of 3 "\<lparr>simTime = 0\<rparr>" "new_TelloPlugin link_at_rest None"]
    by (simp add: MAX_XY_A_def MAX_Z_A_def MAX_ANG_A_def)
qed

subsection \<open>C4: a velocity command scaled into setpoints\<close>

text \<open>
  C4: after a velocity command the setpoints of the four channels are the
  command's linear \<open>x\<close> and \<open>y\<close> times 8, its linear \<open>z\<close> times 4 and its angular
  \<open>z\<close> times \<open>pi\<close>; the command \<open>(x = 1.0, y = 0, z = 0, yaw = 0)\<close> sets the
  setpoint of the \<open>x\<close> channel to 8.0.
\<close>

theorem cmd_vel_scales_setpoints:
  "setpoint (x_controller (cmd_vel_callback msg s)) = vX (linear msg) * 8 \<and>
   setpoint (y_controller (cmd_vel_callback msg s)) = vY (linear msg) * 8 \<and>
   setpoint (z_controller (cmd_vel_callback msg s)) = vZ (linear msg) * 4 \<and>
   setpoint (yaw_controller (cmd_vel_callback msg s)) = vZ (angular_vel msg) * pi \<and>
   setpoint (x_controller (cmd_vel_callback
       \<lparr>linear = \<lparr>vX = 1.0, vY = 0, vZ = 0\<rparr>, angular_vel = \<lparr>vX = 0, vY = 0, vZ = 0\<rparr>\<rparr> s)) = 8.0"
  by (simp add: cmd_vel_callback_def set_target_def MAX_XY_V_def MAX_Z_V_def MAX_ANG_V_def)

subsection \<open>C5: force and torque\<close>



subsection \<open>C6: the orientation after a tick\<close>

text \<open>
  C6, as stated, fails: a tick sets the \<open>x\<close> and \<open>y\<close> components of the orientation
  quaternion to zero, which are not its roll and pitch. The orientation with roll
  0.3, pitch -0.2 and yaw 1.0 does not become the orientation with roll 0, pitch 0
  and yaw 1.0, nor any multiple of it: the yaw changes.
\<close>

theorem orientation_yaw_counterexample:
  "Rot (WorldPose (base_link (OnUpdate \<lparr>simTime = 0\<rparr> (new_TelloPlugin link_tilted None)))) \<noteq>
     quat_of_euler 0 0 1.0 \<and>
   \<not> collinear_q
       (Rot (WorldPose (base_link (OnUpdate \<lparr>simTime = 0\<rparr> (new_TelloPlugin link_tilted None)))))
       (quat_of_euler 0 0 1.0)"
proof -
  let ?q = "Rot (WorldPose (base_link (OnUpdate \<lparr>simTime = 0\<rparr> (new_TelloPlugin link_tilted None))))"
  have q: "?q = (quat_of_euler 0.3 (- 0.2) 1.0)\<lparr>qX := 0, qY := 0\<rparr>"
    by (simp add: OnUpdate_pose new_TelloPlugin_def link_tilted_def)
  have p: "pi \<ge> 2" by (rule pi_ge_two)
  have "0 < sin (0.3 / 2 :: real)" using p by (intro sin_gt_zero) simp_all
  moreover have "0 < sin (0.2 / 2 :: real)" using p by (intro sin_gt_zero) simp_all
  then have "sin (- 0.2 / 2 :: real) < 0" by simp
  ultimately have n: "\<not> collinear_q ?q (quat_of_euler 0 0 1.0)"
    unfolding q yaw_kept_iff by simp
  have "collinear_q (quat_of_euler 0 0 1.0) (quat_of_euler 0 0 1.0)"
    by (simp add: collinear_q_def)
  with n have "?q \<noteq> quat_of_euler 0 0 1.0" by metis
  with n show ?thesis by blast
qed

text \<open>
  C6, amended: on every tick the \<open>x\<close> and \<open>y\<close> components of the orientation
  quaternion are overwritten with zero, while its \<open>w\<close> and \<open>z\<close> components and the
  position are left as they were. The result is a multiple of a pure yaw rotation,
  so its roll and pitch are zero; when the orientation before the tick had roll
  \<open>r\<close>, pitch \<open>p\<close> and yaw \<open>y\<close>, the result lies on the line of the orientation with
  roll 0, pitch 0 and yaw \<open>y\<close> exactly when \<open>sin (r / 2) = 0\<close> or \<open>sin (p / 2) = 0\<close>.
\<close>

theorem orientation_xy_zeroed:
  "WorldPose (base_link (OnUpdate info s)) =
     (WorldPose (base_link s))\<lparr>Rot := (Rot (WorldPose (base_link s)))\<lparr>qX := 0, qY := 0\<rparr>\<rparr> \<and>
   (\<exists>c psi. Rot (WorldPose (base_link (OnUpdate info s))) = scale_q c (quat_of_euler 0 0 psi)) \<and>
   (Rot (WorldPose (base_link s)) = quat_of_euler r p y \<longrightarrow>
      (collinear_q (Rot (WorldPose (base_link (OnUpdate info s)))) (quat_of_euler 0 0 y)
         \<longleftrightarrow> sin (r / 2) = 0 \<or> sin (p / 2) = 0))"
  using upright_polar [of "Rot (WorldPose (base_link s))"] yaw_kept_iff [of r p y]
  by (simp add: OnUpdate_pose)

theorem orientation_xy_zeroed_witness:
  "Rot (WorldPose (base_link (new_TelloPlugin link_tilted None))) = quat_of_euler 0.3 (- 0.2) 1.0 \<and>
   qX (Rot (WorldPose (base_link (OnUpdate \<lparr>simTime = 0\<rparr> (new_TelloPlugin link_tilted None))))) = 0 \<and>
   qY (Rot (WorldPose (base_link (OnUpdate \<lparr>simTime = 0\<rparr> (new_TelloPlugin link_tilted None))))) = 0 \<and>
   qW (Rot (WorldPose (base_link (OnUpdate \<lparr>simTime = 0\<rparr> (new_TelloPlugin link_tilted None))))) =
     qW (quat_of_euler 0.3 (- 0.2) 1.0) \<and>
   qZ (Rot (WorldPose (base_link (OnUpdate \<lparr>simTime = 0\<rparr> (new_TelloPlugin link_tilted None))))) =
     qZ (quat_of_euler 0.3 (- 0.2) 1.0) \<and>
   (collinear_q
      (Rot (WorldPose (base_link (OnUpdate \<lparr>simTime = 0\<rparr> (new_TelloPlugin link_tilted None)))))
      (quat_of_euler 0 0 1.0)
    \<longleftrightarrow> sin (0.3 / 2 :: real) = 0 \<or> sin (- 0.2 / 2 :: real) = 0)"
proof -
  let ?s = "new_TelloPlugin link_tilted None"
  let ?q = "Rot (WorldPose (base_link (OnUpdate \<lparr>simTime = 0\<rparr> ?s)))"
  have h: "Rot (WorldPose (base_link ?s)) = quat_of_euler 0.3 (- 0.2) 1.0"
    by (simp add: new_TelloPlugin_def link_tilted_def)
  note t = orientation_xy_zeroed [of "\<lparr>simTime = 0\<rparr>" ?s "0.3" "- 0.2" "1.0"]
  from t have "WorldPose (base_link (OnUpdate \<lparr>simTime = 0\<rparr> ?s)) =
     (WorldPose (base_link ?s))\<lparr>Rot := (Rot (WorldPose (base_link ?s)))\<lparr>qX := 0, qY := 0\<rparr>\<rparr>"
    by (rule conjunct1)
  then have c: "?q = (quat_of_euler 0.3 (- 0.2) 1.0)\<lparr>qX := 0, qY := 0\<rparr>"
    by (simp add: h)
  from t h have i: "collinear_q ?q (quat_of_euler 0 0 1.0)
    \<longleftrightarrow> sin (0.3 / 2 :: real) = 0 \<or> sin (- 0.2 / 2 :: real) = 0"
    by blast
  have x: "qX ?q = 0" and y: "qY ?q = 0"
    and w: "qW ?q = qW (quat_of_euler 0.3 (- 0.2) 1.0)"
    and z: "qZ ?q = qZ (quat_of_euler 0.3 (- 0.2) 1.0)"
    by (simp_all add: c)
  from h x y w z i show ?thesis by (intro conjI)
qed

subsection \<open>C7: an update with no elapsed time\<close>



subsection \<open>C8: the clamp is idempotent and odd\<close>

text \<open>
  C8: for every value \<open>v\<close> and every bound \<open>m > 0\<close>, clamping twice is clamping
  once, and the clamp of \<open>-v\<close> is the negated clamp of \<open>v\<close>.
\<close>

theorem clamp_idempotent_odd:
  "0 < m \<Longrightarrow> clamp v m = clamp (clamp v m) m \<and> clamp v m = - clamp (- v) m"
  by (simp add: clamp_def)

theorem clamp_idempotent_odd_witness:
  "(0::real) < 8 \<and> clamp 10 8 = clamp (clamp 10 8) 8 \<and> clamp 10 8 = - clamp (- 10) 8 \<and>
   clamp 10 8 = 8"
proof -
  have h: "(0::real) < 8" by simp
  show ?thesis using h clamp_idempotent_odd [OF h, of 10] by (simp add: clamp_def)
qed

subsection \<open>C9: the last command wins\<close>

text \<open>
  C9: setting a target twice is setting the second target, and setting a target
  changes nothing of a controller but its setpoint. Two velocity commands in a row
  leave the plugin as the second one alone does, with the setpoints of the second
  command, so the next tick is the same in both cases; a velocity command changes
  nothing of the plugin but the four setpoints.
\<close>

theorem cmd_vel_last_write_wins:
  "cmd_vel_callback c2 (cmd_vel_callback c1 s) = cmd_vel_callback c2 s \<and>
   OnUpdate info (cmd_vel_callback c2 (cmd_vel_callback c1 s)) =
     OnUpdate info (cmd_vel_callback c2 s) \<and>
   setpoint (x_controller (cmd_vel_callback c2 (cmd_vel_callback c1 s))) =
     vX (linear c2) * MAX_XY_V \<and>
   setpoint (y_controller (cmd_vel_callback c2 (cmd_vel_callback c1 s))) =
     vY (linear c2) * MAX_XY_V \<and>
   setpoint (z_controller (cmd_vel_callback c2 (cmd_vel_callback c1 s))) =
     vZ (linear c2) * MAX_Z_V \<and>
   setpoint (yaw_controller (cmd_vel_callback c2 (cmd_vel_callback c1 s))) =
     vZ (angular_vel c2) * MAX_ANG_V \<and>
   set_target v2 (set_target v1 c) = set_target v2 c \<and>
   (set_target v1 c)\<lparr>setpoint := setpoint c\<rparr> = c \<and>
   (cmd_vel_callback c1 s)
     \<lparr>x_controller :=
        (x_controller (cmd_vel_callback c1 s))\<lparr>setpoint := setpoint (x_controller s)\<rparr>,
      y_controller :=
        (y_controller (cmd_vel_callback c1 s))\<lparr>setpoint := setpoint (y_controller s)\<rparr>,
      z_controller :=
        (z_controller (cmd_vel_callback c1 s))\<lparr>setpoint := setpoint (z_controller s)\<rparr>,
      yaw_controller :=
        (yaw_controller (cmd_vel_callback c1 s))\<lparr>setpoint := setpoint (yaw_controller s)\<rparr>\<rparr>
     = s"
  by (simp add: cmd_vel_callback_def set_target_def)

subsection \<open>C10: the action service does nothing\<close>

text \<open>
  C10: the handler of the action service returns the response it was handed and
  the plugin it was called on, both as they were, so a tick after a request is the
  tick without it, and removing every service request from a run of the plugin
  changes nothing of its outcome.
\<close>

theorem command_callback_no_effect:
  "command_callback request_header request response s = (response, s) \<and>
   OnUpdate info (snd (command_callback request_header request response s)) = OnUpdate info s \<and>
   run (filter (\<lambda>e. \<not> is_Command e) evs) s = run evs s"
  by (simp add: run_drop_commands) (simp add: command_callback_def)

theorem command_callback_no_effect_witness:
  "run [CmdVel \<lparr>linear = \<lparr>vX = 1, vY = 0, vZ = 0\<rparr>, angular_vel = Vector3d_Zero\<rparr>,
        Update \<lparr>simTime = 1\<rparr>] (new_TelloPlugin link_at_rest None) =
   run [Command ''land'',
        CmdVel \<lparr>linear = \<lparr>vX = 1, vY = 0, vZ = 0\<rparr>, angular_vel = Vector3d_Zero\<rparr>,
        Command ''takeoff'', Update \<lparr>simTime = 1\<rparr>] (new_TelloPlugin link_at_rest None)"
  using command_callback_no_effect
    [of "()" "''land''" "()" "new_TelloPlugin link_at_rest None" "\<lparr>simTime = 1\<rparr>"
        "[Command ''land'',
          CmdVel \<lparr>linear = \<lparr>vX = 1, vY = 0, vZ = 0\<rparr>, angular_vel = Vector3d_Zero\<rparr>,
          Command ''takeoff'', Update \<lparr>simTime = 1\<rparr>]"]
  by simp

end
